theory Spec2Isabelle
  imports Complex_Main "HOL-Library.AList"
begin

section \<open>Lead management: data model\<close>

text \<open>
  A shallow embedding of \<^verbatim>\<open>src/lead_management.py\<close>. Python floats are modelled as
  exact rationals (\<^typ>\<open>rat\<close>): every weight, threshold, sub-score and composite score
  is the rational the literal denotes, and \<^verbatim>\<open>round(x, 2)\<close> is rounding of the exact
  value to two decimals, ties to even. Python strings are modelled as \<^typ>\<open>string\<close>
  with ASCII case folding. Lead objects are modelled by value: the dictionary
  \<^verbatim>\<open>self.leads\<close> is an association list in insertion order whose entries are
  replaced in place when the source mutates the stored object.
\<close>

datatype LeadStatus =
  NEW | QUALIFIED | CONTACTED | MEETING_SCHEDULED | PROPOSAL_SENT
  | CLOSED_WON | CLOSED_LOST | UNQUALIFIED

datatype LeadSource =
  WEBSITE | LINKEDIN | EMAIL_CAMPAIGN | REFERRAL | COLD_OUTREACH
  | TRADE_SHOW | WEBINAR | OTHER

fun LeadStatus_value :: "LeadStatus \<Rightarrow> string" where
  "LeadStatus_value NEW = ''new''"
| "LeadStatus_value QUALIFIED = ''qualified''"
| "LeadStatus_value CONTACTED = ''contacted''"
| "LeadStatus_value MEETING_SCHEDULED = ''meeting_scheduled''"
| "LeadStatus_value PROPOSAL_SENT = ''proposal_sent''"
| "LeadStatus_value CLOSED_WON = ''closed_won''"
| "LeadStatus_value CLOSED_LOST = ''closed_lost''"
| "LeadStatus_value UNQUALIFIED = ''unqualified''"

fun LeadSource_value :: "LeadSource \<Rightarrow> string" where
  "LeadSource_value WEBSITE = ''website''"
| "LeadSource_value LINKEDIN = ''linkedin''"
| "LeadSource_value EMAIL_CAMPAIGN = ''email_campaign''"
| "LeadSource_value REFERRAL = ''referral''"
| "LeadSource_value COLD_OUTREACH = ''cold_outreach''"
| "LeadSource_value TRADE_SHOW = ''trade_show''"
| "LeadSource_value WEBINAR = ''webinar''"
| "LeadSource_value OTHER = ''other''"

text \<open>
  The attributes \<^verbatim>\<open>status\<close> and \<^verbatim>\<open>lead_source\<close> are not checked by the dataclass:
  they hold whatever the constructor was given, an enum member or a plain string.
  A plain string never compares equal to an enum member (\<^verbatim>\<open>Enum\<close>, not \<^verbatim>\<open>str\<close>-mixin).
\<close>

datatype status_attr = Status_member LeadStatus | Status_str string
datatype source_attr = Source_member LeadSource | Source_str string

text \<open>
  The timestamp attributes are annotated \<^verbatim>\<open>str\<close>, written as \<^verbatim>\<open>str(datetime.now())\<close>
  and read with \<^verbatim>\<open>.isoformat()\<close>: a value is a string or a datetime object (kept as its
  ISO text), and the attribute may be \<^verbatim>\<open>None\<close>.
\<close>

datatype time_attr = Time_str string | Time_datetime string

record ScoringCriteria =
  company_size_weight :: rat
  budget_weight :: rat
  authority_weight :: rat
  need_weight :: rat
  timeline_weight :: rat
  qualified_threshold :: rat
  hot_lead_threshold :: rat

definition default_criteria :: ScoringCriteria where
  "default_criteria =
     \<lparr> company_size_weight = 25 / 100, budget_weight = 30 / 100,
       authority_weight = 20 / 100, need_weight = 15 / 100,
       timeline_weight = 10 / 100,
       qualified_threshold = 70, hot_lead_threshold = 85 \<rparr>"

definition validate_weights :: "ScoringCriteria \<Rightarrow> bool" where
  "validate_weights c =
     (let total = company_size_weight c + budget_weight c
                  + authority_weight c + need_weight c + timeline_weight c
      in \<bar>total - 1\<bar> < 1 / 1000)"

record Lead =
  first_name :: string
  last_name :: string
  email :: string
  company :: string
  phone :: "string option"
  title :: "string option"
  lead_source :: source_attr
  status :: status_attr
  created_at :: "time_attr option"
  updated_at :: "time_attr option"
  company_size :: "int option"
  annual_revenue :: "int option"
  budget :: "int option"
  decision_maker :: bool
  pain_points :: "string list"
  timeline :: "string option"
  qualification_score :: rat
  notes' :: string
  tags :: "string list"
  id' :: string
  last_contacted :: "time_attr option"
  next_follow_up :: "time_attr option"

definition is_qualified :: "Lead \<Rightarrow> bool" where
  "is_qualified l = (qualification_score l \<ge> 70)"

definition is_hot_lead :: "Lead \<Rightarrow> bool" where
  "is_hot_lead l = (qualification_score l \<ge> 85)"

section \<open>Python helpers\<close>

text \<open>The value of an \<^verbatim>\<open>Optional[int]\<close> that passes \<^verbatim>\<open>if x:\<close> (neither \<^verbatim>\<open>None\<close> nor 0).\<close>

fun truthy_int :: "int option \<Rightarrow> int option" where
  "truthy_int None = None"
| "truthy_int (Some n) = (if n = 0 then None else Some n)"

text \<open>The value of an \<^verbatim>\<open>Optional[str]\<close> that passes \<^verbatim>\<open>if x:\<close> (neither \<^verbatim>\<open>None\<close> nor empty).\<close>

fun truthy_str :: "string option \<Rightarrow> string option" where
  "truthy_str None = None"
| "truthy_str (Some s) = (if s = [] then None else Some s)"

text \<open>\<^verbatim>\<open>int(x)\<close> on a float: truncation towards zero.\<close>

definition py_int :: "rat \<Rightarrow> int" where
  "py_int x = (if x \<ge> 0 then \<lfloor>x\<rfloor> else \<lceil>x\<rceil>)"

text \<open>\<^verbatim>\<open>round(x, 2)\<close>: the nearest multiple of 0.01, a tie going to the even one.\<close>

definition round_half_even :: "rat \<Rightarrow> int" where
  "round_half_even x =
     (let f = \<lfloor>x\<rfloor>; d = x - of_int f
      in if d < 1 / 2 then f
         else if d > 1 / 2 then f + 1
         else if even f then f else f + 1)"

definition round2 :: "rat \<Rightarrow> rat" where
  "round2 x = of_int (round_half_even (x * 100)) / 100"

definition lower_char :: "char \<Rightarrow> char" where
  "lower_char c =
     (let n = (of_char c :: nat)
      in if 65 \<le> n \<and> n \<le> 90 then char_of (n + 32) else c)"

definition lower :: "string \<Rightarrow> string" where
  "lower s = map lower_char s"

fun starts_with :: "string \<Rightarrow> string \<Rightarrow> bool" where
  "starts_with [] s = True"
| "starts_with (k # ks) [] = False"
| "starts_with (k # ks) (c # cs) = (k = c \<and> starts_with ks cs)"

text \<open>\<^verbatim>\<open>k in s\<close> on strings: \<open>k\<close> occurs in \<open>s\<close> as a contiguous substring.\<close>

fun contains :: "string \<Rightarrow> string \<Rightarrow> bool" where
  "contains k [] = (k = [])"
| "contains k (c # cs) = (starts_with k (c # cs) \<or> contains k cs)"

text \<open>\<^verbatim>\<open>sep.join(xs)\<close>.\<close>

fun join :: "string \<Rightarrow> string list \<Rightarrow> string" where
  "join sep [] = []"
| "join sep [x] = x"
| "join sep (x # y # ys) = x @ sep @ join sep (y # ys)"

section \<open>Scoring\<close>

definition score_company_size :: "int option \<Rightarrow> rat" where
  "score_company_size employees =
     (case truthy_int employees of
        None \<Rightarrow> 50
      | Some n \<Rightarrow>
          if n \<ge> 1000 then 100
          else if n \<ge> 500 then 85
          else if n \<ge> 100 then 70
          else if n \<ge> 50 then 55
          else if n \<ge> 10 then 40
          else 25)"

function score_budget :: "int option \<Rightarrow> int option \<Rightarrow> rat" where
  "score_budget bud revenue =
     (case truthy_int bud of
        Some b \<Rightarrow>
          if b \<ge> 100000 then 100
          else if b \<ge> 50000 then 80
          else if b \<ge> 25000 then 60
          else if b \<ge> 10000 then 40
          else 20
      | None \<Rightarrow>
          (case truthy_int revenue of
             Some r \<Rightarrow>
               (let estimated_budget = of_int r * (5 / 100)
                in score_budget (Some (py_int estimated_budget)) None)
           | None \<Rightarrow> 30))"
  by pat_completeness auto
termination
  by (relation "measure (\<lambda>(b, r). case truthy_int r of None \<Rightarrow> 0 | Some _ \<Rightarrow> 1)") auto

declare score_budget.simps [simp del]

definition score_authority :: "bool \<Rightarrow> string option \<Rightarrow> rat" where
  "score_authority is_decision_maker job_title =
     (if is_decision_maker then 100
      else case truthy_str job_title of
        None \<Rightarrow> 40
      | Some t \<Rightarrow>
          (let title_lower = lower t
           in if list_ex (\<lambda>word. contains word title_lower)
                   [''ceo'', ''cto'', ''cfo'', ''cmo'', ''president''] then 95
              else if list_ex (\<lambda>word. contains word title_lower)
                   [''director'', ''vp'', ''vice president''] then 80
              else if contains ''manager'' title_lower then 65
              else if contains ''senior'' title_lower then 50
              else 35))"

definition high_value_keywords :: "string list" where
  "high_value_keywords =
     [''efficiency'', ''cost'', ''revenue'', ''growth'', ''scale'',
      ''competition'', ''manual'', ''time'', ''error'']"

definition score_need :: "string list \<Rightarrow> rat" where
  "score_need points =
     (if points = [] then 30
      else
        let base_score = min (int (length points) * 25) 100;
            pain_text = lower (join '' '' points);
            keyword_matches =
              int (length (filter (\<lambda>keyword. contains keyword pain_text)
                             high_value_keywords));
            bonus = min (keyword_matches * 10) 30
        in min (of_int (base_score + bonus)) 100)"

definition timeline_scores :: "(string \<times> rat) list" where
  "timeline_scores =
     [(''immediate'', 100), (''3_months'', 80), (''6_months'', 60), (''next_year'', 30)]"

definition score_timeline :: "string option \<Rightarrow> rat" where
  "score_timeline when =
     (case truthy_str when of
        None \<Rightarrow> 40
      | Some t \<Rightarrow> (case map_of timeline_scores t of None \<Rightarrow> 40 | Some v \<Rightarrow> v))"

text \<open>The weighted sum accumulated by \<^verbatim>\<open>qualify_lead\<close>, before rounding.\<close>

definition weighted_score :: "ScoringCriteria \<Rightarrow> Lead \<Rightarrow> rat" where
  "weighted_score c lead =
     (let score = 0;
          company_score = score_company_size (company_size lead);
          score = score + company_score * company_size_weight c;
          budget_score = score_budget (budget lead) (annual_revenue lead);
          score = score + budget_score * budget_weight c;
          authority_score = score_authority (decision_maker lead) (title lead);
          score = score + authority_score * authority_weight c;
          need_score = score_need (pain_points lead);
          score = score + need_score * need_weight c;
          timeline_score = score_timeline (timeline lead);
          score = score + timeline_score * timeline_weight c
      in score)"

text \<open>What \<^verbatim>\<open>qualify_lead\<close> does to the lead object it found.\<close>

definition qualify_object :: "ScoringCriteria \<Rightarrow> Lead \<Rightarrow> Lead" where
  "qualify_object c lead =
     (let lead = lead\<lparr>qualification_score := round2 (weighted_score c lead)\<rparr>
      in if status lead = Status_member NEW then
           (if qualification_score lead \<ge> qualified_threshold c
            then lead\<lparr>status := Status_member QUALIFIED\<rparr>
            else lead\<lparr>status := Status_member UNQUALIFIED\<rparr>)
         else lead)"

section \<open>The repository\<close>

record Interaction =
  interaction_id :: string
  timestamp :: string
  interaction_type :: string
  details :: string

record LeadManager =
  leads :: "(string \<times> Lead) list"
  scoring_criteria :: ScoringCriteria
  interaction_history :: "(string \<times> Interaction list) list"

definition qualify_lead :: "LeadManager \<Rightarrow> string \<Rightarrow> rat \<times> LeadManager" where
  "qualify_lead self lid =
     (case map_of (leads self) lid of
        None \<Rightarrow> (0, self)
      | Some lead \<Rightarrow>
          (let lead = qualify_object (scoring_criteria self) lead
           in (qualification_score lead,
               self\<lparr>leads := AList.update lid lead (leads self)\<rparr>)))"


datatype error =
  ValueError string | AttributeError string | KeyError string

text \<open>The exception class of an error, without its message.\<close>

datatype exception_class = ValueError_class | AttributeError_class | KeyError_class

fun class_of :: "error \<Rightarrow> exception_class" where
  "class_of (ValueError msg) = ValueError_class"
| "class_of (AttributeError msg) = AttributeError_class"
| "class_of (KeyError msg) = KeyError_class"

definition init_manager :: "ScoringCriteria \<Rightarrow> error + LeadManager" where
  "init_manager criteria =
     (if \<not> validate_weights criteria
      then Inl (ValueError ''Scoring criteria weights must sum to 1.0'')
      else Inr \<lparr> leads = [], scoring_criteria = criteria, interaction_history = [] \<rparr>)"

definition find_lead_by_email :: "LeadManager \<Rightarrow> string \<Rightarrow> Lead option" where
  "find_lead_by_email self addr =
     find (\<lambda>lead. lower (email lead) = lower addr) (map snd (leads self))"

text \<open>
  \<^verbatim>\<open>add_lead\<close>. The two values drawn from the environment, a fresh
  \<^verbatim>\<open>str(uuid.uuid4())\<close> and \<^verbatim>\<open>str(datetime.now())\<close>, are parameters. The result
  is the raised error or the returned id, with the repository as the call leaves it.
\<close>

definition add_lead ::
  "string \<Rightarrow> string \<Rightarrow> LeadManager \<Rightarrow> Lead \<Rightarrow> (error + string) \<times> LeadManager" where
  "add_lead uuid now self lead =
     (let lead = (if id' lead = [] then lead\<lparr>id' := uuid\<rparr> else lead)
      in if \<not> (first_name lead \<noteq> [] \<and> last_name lead \<noteq> []
                \<and> email lead \<noteq> [] \<and> company lead \<noteq> [])
         then (Inl (ValueError
                 ''Lead must have first_name, last_name, email, and company''), self)
         else if find_lead_by_email self (email lead) \<noteq> None
         then (Inl (ValueError
                 (''Lead with email '' @ email lead @ '' already exists'')), self)
         else
           (let lead = lead\<lparr>updated_at := Some (Time_str now)\<rparr>;
                self = self\<lparr>leads := AList.update (id' lead) lead (leads self)\<rparr>;
                self = self\<lparr>interaction_history :=
                         AList.update (id' lead) [] (interaction_history self)\<rparr>;
                self = snd (qualify_lead self (id' lead))
            in (Inr (id' lead), self)))"

definition get_lead :: "LeadManager \<Rightarrow> string \<Rightarrow> Lead option" where
  "get_lead self lid = map_of (leads self) lid"

text \<open>
  One keyword argument of \<^verbatim>\<open>update_lead\<close>: an assignment to one of the attributes of
  the dataclass, with a value of the attribute's type, or a keyword that names no
  attribute (\<^verbatim>\<open>hasattr\<close> is false and the key is skipped). Keywords that name one
  of the read-only properties \<^verbatim>\<open>full_name\<close>, \<^verbatim>\<open>is_qualified\<close>, \<^verbatim>\<open>is_hot_lead\<close>, on
  which \<^verbatim>\<open>setattr\<close> raises, and values of another type than the attribute's are not
  values of this type.
\<close>

datatype field_update =
  Set_first_name string
| Set_last_name string
| Set_email string
| Set_company string
| Set_phone "string option"
| Set_title "string option"
| Set_lead_source source_attr
| Set_status status_attr
| Set_created_at "time_attr option"
| Set_updated_at "time_attr option"
| Set_company_size "int option"
| Set_annual_revenue "int option"
| Set_budget "int option"
| Set_decision_maker bool
| Set_pain_points "string list"
| Set_timeline "string option"
| Set_qualification_score rat
| Set_notes string
| Set_tags "string list"
| Set_id string
| Set_last_contacted "time_attr option"
| Set_next_follow_up "time_attr option"
| No_attribute string

fun apply_update :: "field_update \<Rightarrow> Lead \<Rightarrow> Lead" where
  "apply_update (Set_first_name v) lead = lead\<lparr>first_name := v\<rparr>"
| "apply_update (Set_last_name v) lead = lead\<lparr>last_name := v\<rparr>"
| "apply_update (Set_email v) lead = lead\<lparr>email := v\<rparr>"
| "apply_update (Set_company v) lead = lead\<lparr>company := v\<rparr>"
| "apply_update (Set_phone v) lead = lead\<lparr>phone := v\<rparr>"
| "apply_update (Set_title v) lead = lead\<lparr>title := v\<rparr>"
| "apply_update (Set_lead_source v) lead = lead\<lparr>lead_source := v\<rparr>"
| "apply_update (Set_status v) lead = lead\<lparr>status := v\<rparr>"
| "apply_update (Set_created_at v) lead = lead\<lparr>created_at := v\<rparr>"
| "apply_update (Set_updated_at v) lead = lead\<lparr>updated_at := v\<rparr>"
| "apply_update (Set_company_size v) lead = lead\<lparr>company_size := v\<rparr>"
| "apply_update (Set_annual_revenue v) lead = lead\<lparr>annual_revenue := v\<rparr>"
| "apply_update (Set_budget v) lead = lead\<lparr>budget := v\<rparr>"
| "apply_update (Set_decision_maker v) lead = lead\<lparr>decision_maker := v\<rparr>"
| "apply_update (Set_pain_points v) lead = lead\<lparr>pain_points := v\<rparr>"
| "apply_update (Set_timeline v) lead = lead\<lparr>timeline := v\<rparr>"
| "apply_update (Set_qualification_score v) lead = lead\<lparr>qualification_score := v\<rparr>"
| "apply_update (Set_notes v) lead = lead\<lparr>notes' := v\<rparr>"
| "apply_update (Set_tags v) lead = lead\<lparr>tags := v\<rparr>"
| "apply_update (Set_id v) lead = lead\<lparr>id' := v\<rparr>"
| "apply_update (Set_last_contacted v) lead = lead\<lparr>last_contacted := v\<rparr>"
| "apply_update (Set_next_follow_up v) lead = lead\<lparr>next_follow_up := v\<rparr>"
| "apply_update (No_attribute k) lead = lead"

text \<open>Membership of the update's key in \<^verbatim>\<open>qualification_fields\<close>.\<close>

fun in_qualification_fields :: "field_update \<Rightarrow> bool" where
  "in_qualification_fields (Set_company_size v) = True"
| "in_qualification_fields (Set_annual_revenue v) = True"
| "in_qualification_fields (Set_budget v) = True"
| "in_qualification_fields (Set_decision_maker v) = True"
| "in_qualification_fields (Set_timeline v) = True"
| "in_qualification_fields (Set_pain_points v) = True"
| "in_qualification_fields u = False"

definition update_lead ::
  "string \<Rightarrow> LeadManager \<Rightarrow> string \<Rightarrow> field_update list \<Rightarrow> bool \<times> LeadManager" where
  "update_lead now self lid updates =
     (case map_of (leads self) lid of
        None \<Rightarrow> (False, self)
      | Some lead \<Rightarrow>
          (let lead = fold apply_update updates lead;
               lead = lead\<lparr>updated_at := Some (Time_str now)\<rparr>;
               self = self\<lparr>leads := AList.update lid lead (leads self)\<rparr>;
               self = (if list_ex in_qualification_fields updates
                       then snd (qualify_lead self lid) else self)
           in (True, self)))"

definition get_qualified_leads :: "LeadManager \<Rightarrow> Lead list" where
  "get_qualified_leads self = filter is_qualified (map snd (leads self))"

definition get_hot_leads :: "LeadManager \<Rightarrow> Lead list" where
  "get_hot_leads self = filter is_hot_lead (map snd (leads self))"

definition get_leads_by_status :: "LeadManager \<Rightarrow> LeadStatus \<Rightarrow> Lead list" where
  "get_leads_by_status self st =
     filter (\<lambda>lead. status lead = Status_member st) (map snd (leads self))"

definition update_scoring_criteria ::
  "LeadManager \<Rightarrow> ScoringCriteria \<Rightarrow> bool \<times> LeadManager" where
  "update_scoring_criteria self new_criteria =
     (if \<not> validate_weights new_criteria then (False, self)
      else
        (let self = self\<lparr>scoring_criteria := new_criteria\<rparr>;
             self = fold (\<lambda>lead_id self. snd (qualify_lead self lead_id))
                      (map fst (leads self)) self
         in (True, self)))"


section \<open>Export\<close>

text \<open>
  The dictionary \<^verbatim>\<open>export_data\<close> that \<^verbatim>\<open>export_leads_json\<close> builds and hands to
  \<^verbatim>\<open>json.dumps\<close>, as a JSON value; the rendering of that value as text is not modelled.
\<close>

datatype json =
  JNull | JBool bool | JInt int | JNum rat | JStr string
| JArr "json list" | JObj "(string \<times> json) list"

text \<open>\<^verbatim>\<open>x.value\<close> where \<open>x\<close> should be an enum member.\<close>

fun status_value :: "status_attr \<Rightarrow> error + string" where
  "status_value (Status_member m) = Inr (LeadStatus_value m)"
| "status_value (Status_str s) =
     Inl (AttributeError ''str object has no attribute value'')"

fun source_value :: "source_attr \<Rightarrow> error + string" where
  "source_value (Source_member m) = Inr (LeadSource_value m)"
| "source_value (Source_str s) =
     Inl (AttributeError ''str object has no attribute value'')"

text \<open>\<^verbatim>\<open>x.isoformat()\<close>: only a datetime object has the method.\<close>

fun isoformat :: "time_attr option \<Rightarrow> error + string" where
  "isoformat None =
     Inl (AttributeError ''NoneType object has no attribute isoformat'')"
| "isoformat (Some (Time_str s)) =
     Inl (AttributeError ''str object has no attribute isoformat'')"
| "isoformat (Some (Time_datetime d)) = Inr d"

text \<open>\<^verbatim>\<open>x.isoformat() if x else None\<close>: \<^verbatim>\<open>None\<close> and the empty string are falsy.\<close>

fun isoformat_if_set :: "time_attr option \<Rightarrow> error + json" where
  "isoformat_if_set None = Inr JNull"
| "isoformat_if_set (Some (Time_str s)) =
     (if s = [] then Inr JNull
      else Inl (AttributeError ''str object has no attribute isoformat''))"
| "isoformat_if_set (Some (Time_datetime d)) = Inr (JStr d)"

fun json_opt_str :: "string option \<Rightarrow> json" where
  "json_opt_str None = JNull"
| "json_opt_str (Some s) = JStr s"

fun json_opt_int :: "int option \<Rightarrow> json" where
  "json_opt_int None = JNull"
| "json_opt_int (Some n) = JInt n"

text \<open>The entry written for one lead; the values are evaluated in the order of the literal.\<close>

definition export_lead :: "Lead \<Rightarrow> error + json" where
  "export_lead lead =
     (case source_value (lead_source lead) of Inl e \<Rightarrow> Inl e | Inr src \<Rightarrow>
      (case status_value (status lead) of Inl e \<Rightarrow> Inl e | Inr st \<Rightarrow>
      (case isoformat (created_at lead) of Inl e \<Rightarrow> Inl e | Inr created \<Rightarrow>
      (case isoformat (updated_at lead) of Inl e \<Rightarrow> Inl e | Inr updated \<Rightarrow>
      (case isoformat_if_set (last_contacted lead) of Inl e \<Rightarrow> Inl e | Inr contacted \<Rightarrow>
      (case isoformat_if_set (next_follow_up lead) of Inl e \<Rightarrow> Inl e | Inr follow_up \<Rightarrow>
        Inr (JObj
          [(''first_name'', JStr (first_name lead)),
           (''last_name'', JStr (last_name lead)),
           (''email'', JStr (email lead)),
           (''company'', JStr (company lead)),
           (''phone'', json_opt_str (phone lead)),
           (''title'', json_opt_str (title lead)),
           (''lead_source'', JStr src),
           (''status'', JStr st),
           (''created_at'', JStr created),
           (''updated_at'', JStr updated),
           (''company_size'', json_opt_int (company_size lead)),
           (''annual_revenue'', json_opt_int (annual_revenue lead)),
           (''budget'', json_opt_int (budget lead)),
           (''decision_maker'', JBool (decision_maker lead)),
           (''pain_points'', JArr (map JStr (pain_points lead))),
           (''timeline'', json_opt_str (timeline lead)),
           (''qualification_score'', JNum (qualification_score lead)),
           (''notes'', JStr (notes' lead)),
           (''tags'', JArr (map JStr (tags lead))),
           (''last_contacted'', contacted),
           (''next_follow_up'', follow_up)])))))))"

text \<open>
  The loop over \<^verbatim>\<open>self.leads.items()\<close>, assigning into \<^verbatim>\<open>export_data['leads']\<close>:
  the first failing lead ends the export.
\<close>

fun export_entries ::
  "(string \<times> json) list \<Rightarrow> (string \<times> Lead) list \<Rightarrow> error + (string \<times> json) list" where
  "export_entries entries [] = Inr entries"
| "export_entries entries ((lead_id, lead) # rest) =
     (case export_lead lead of
        Inl e \<Rightarrow> Inl e
      | Inr entry \<Rightarrow> export_entries (AList.update lead_id entry entries) rest)"

definition export_leads_json :: "string \<Rightarrow> LeadManager \<Rightarrow> error + json" where
  "export_leads_json now self =
     (let c = scoring_criteria self;
          criteria_doc = JObj
            [(''company_size_weight'', JNum (company_size_weight c)),
             (''budget_weight'', JNum (budget_weight c)),
             (''authority_weight'', JNum (authority_weight c)),
             (''need_weight'', JNum (need_weight c)),
             (''timeline_weight'', JNum (timeline_weight c)),
             (''qualified_threshold'', JNum (qualified_threshold c)),
             (''hot_lead_threshold'', JNum (hot_lead_threshold c))]
      in case export_entries [] (leads self) of
           Inl e \<Rightarrow> Inl e
         | Inr entries \<Rightarrow>
             Inr (JObj [(''leads'', JObj entries),
                        (''scoring_criteria'', criteria_doc),
                        (''export_timestamp'', JStr now)]))"

section \<open>Bulk ingestion\<close>

text \<open>
  One dictionary of the input of \<^verbatim>\<open>create_lead_objects_from_data\<close>, as the JSON the
  generator returns: \<open>None\<close> is an absent key.
\<close>

record LeadData =
  data_first_name :: "string option"
  data_last_name :: "string option"
  data_email :: "string option"
  data_company :: "string option"
  data_phone :: "string option"
  data_title :: "string option"
  data_lead_source :: "string option"
  data_status :: "string option"
  data_company_size :: "int option"
  data_annual_revenue :: "int option"
  data_budget :: "int option"
  data_decision_maker :: "bool option"
  data_pain_points :: "string list option"
  data_timeline :: "string option"
  data_notes :: "string option"
  data_tags :: "string list option"

text \<open>\<^verbatim>\<open>LeadSource(s)\<close> and \<^verbatim>\<open>LeadStatus(s)\<close>: the member whose value is \<open>s\<close>.\<close>

definition LeadSource_of :: "string \<Rightarrow> error + LeadSource" where
  "LeadSource_of s =
     (case find (\<lambda>m. LeadSource_value m = s)
             [WEBSITE, LINKEDIN, EMAIL_CAMPAIGN, REFERRAL, COLD_OUTREACH,
              TRADE_SHOW, WEBINAR, OTHER] of
        None \<Rightarrow> Inl (ValueError (s @ '' is not a valid LeadSource''))
      | Some m \<Rightarrow> Inr m)"

definition LeadStatus_of :: "string \<Rightarrow> error + LeadStatus" where
  "LeadStatus_of s =
     (case find (\<lambda>m. LeadStatus_value m = s)
             [NEW, QUALIFIED, CONTACTED, MEETING_SCHEDULED, PROPOSAL_SENT,
              CLOSED_WON, CLOSED_LOST, UNQUALIFIED] of
        None \<Rightarrow> Inl (ValueError (s @ '' is not a valid LeadStatus''))
      | Some m \<Rightarrow> Inr m)"

text \<open>\<^verbatim>\<open>data[key]\<close> and \<^verbatim>\<open>data.get(key, default)\<close>.\<close>

fun subscript :: "string \<Rightarrow> 'a option \<Rightarrow> error + 'a" where
  "subscript key None = Inl (KeyError key)"
| "subscript key (Some v) = Inr v"

fun get_default :: "'a option \<Rightarrow> 'a \<Rightarrow> 'a" where
  "get_default None d = d"
| "get_default (Some v) d = v"

text \<open>The body of the \<^verbatim>\<open>try\<close> block for one dictionary.\<close>

definition create_lead_object ::
  "string \<Rightarrow> string \<Rightarrow> LeadManager \<Rightarrow> LeadData \<Rightarrow> (error + string) \<times> LeadManager" where
  "create_lead_object uuid now self data =
     (case LeadSource_of (get_default (data_lead_source data) ''other'') of
        Inl e \<Rightarrow> (Inl e, self) | Inr src \<Rightarrow>
      (case LeadStatus_of (get_default (data_status data) ''new'') of
        Inl e \<Rightarrow> (Inl e, self) | Inr st \<Rightarrow>
      (case subscript ''first_name'' (data_first_name data) of
        Inl e \<Rightarrow> (Inl e, self) | Inr fname \<Rightarrow>
      (case subscript ''last_name'' (data_last_name data) of
        Inl e \<Rightarrow> (Inl e, self) | Inr lname \<Rightarrow>
      (case subscript ''email'' (data_email data) of
        Inl e \<Rightarrow> (Inl e, self) | Inr addr \<Rightarrow>
      (case subscript ''company'' (data_company data) of
        Inl e \<Rightarrow> (Inl e, self) | Inr org \<Rightarrow>
        add_lead uuid now self
          \<lparr> first_name = fname, last_name = lname, email = addr, company = org,
            phone = data_phone data, title = data_title data,
            lead_source = Source_str (get_default (data_lead_source data) ''other''),
            status = Status_str (get_default (data_status data) ''new''),
            created_at = None, updated_at = None,
            company_size = data_company_size data,
            annual_revenue = data_annual_revenue data,
            budget = data_budget data,
            decision_maker = get_default (data_decision_maker data) False,
            pain_points = get_default (data_pain_points data) [],
            timeline = data_timeline data,
            qualification_score = 0,
            notes' = get_default (data_notes data) [],
            tags = get_default (data_tags data) [],
            id' = uuid, last_contacted = None, next_follow_up = None \<rparr>))))))"

text \<open>
  The loop over the input; each dictionary comes with the fresh id and the clock
  reading drawn while it is processed. A failing dictionary is skipped.
\<close>

fun create_lead_objects_from_data ::
  "LeadManager \<Rightarrow> (string \<times> string \<times> LeadData) list \<Rightarrow> string list \<times> LeadManager" where
  "create_lead_objects_from_data self [] = ([], self)"
| "create_lead_objects_from_data self ((uuid, now, data) # rest) =
     (case create_lead_object uuid now self data of
        (Inl e, self') \<Rightarrow> create_lead_objects_from_data self' rest
      | (Inr lead_id, self') \<Rightarrow>
          (let (lead_ids, self'') = create_lead_objects_from_data self' rest
           in (lead_id # lead_ids, self'')))"

section \<open>Facts about the helpers\<close>

lemma map_of_update_same: "map_of (AList.update k v al) k = Some v"
  by (simp add: update_conv')

lemma map_of_update_other: "k' \<noteq> k \<Longrightarrow> map_of (AList.update k v al) k' = map_of al k'"
  by (simp add: update_conv')

lemma round2_fixed: "round2 (of_int n / 100) = of_int n / 100"
  by (simp add: round2_def round_half_even_def)

section \<open>Example 1 of the specification\<close>

definition example_pain_points :: "string list" where
  "example_pain_points = [''manual processes'', ''cost optimization'']"

lemma score_need_example: "score_need example_pain_points = 70"
  unfolding example_pain_points_def by code_simp

lemma score_timeline_immediate: "score_timeline (Some ''immediate'') = 100"
  by code_simp

lemma score_budget_given:
  "b \<noteq> 0 \<Longrightarrow> score_budget (Some b) revenue =
     (if b \<ge> 100000 then 100 else if b \<ge> 50000 then 80
      else if b \<ge> 25000 then 60 else if b \<ge> 10000 then 40 else 20)"
  by (simp add: score_budget.simps)

lemma weighted_score_example:
  assumes "decision_maker lead" "budget lead = Some 120000" "company_size lead = Some 1200"
    and "pain_points lead = example_pain_points" "timeline lead = Some ''immediate''"
  shows "weighted_score default_criteria lead = 191 / 2"
  using assms
  by (simp add: weighted_score_def default_criteria_def score_company_size_def
      score_budget_given score_authority_def score_need_example score_timeline_immediate)

lemma round2_example: "round2 (191 / 2) = 191 / 2"
  using round2_fixed [of 9550] by simp

text \<open>
  Claim C1. A lead stored with status NEW that is a decision maker with budget 120000,
  company size 1200, the pain points "manual processes" and "cost optimization" and
  timeline "immediate", scored under the default criteria: \<open>qualify_lead\<close> returns 95.5,
  stores exactly that score, moves the status to QUALIFIED, and the stored lead is a
  hot lead (its score reaches the hot-lead threshold 85).
\<close>

theorem qualify_lead_example_1:
  assumes "map_of (leads self) lid = Some lead"
    and "scoring_criteria self = default_criteria"
    and "status lead = Status_member NEW"
    and "decision_maker lead" "budget lead = Some 120000" "company_size lead = Some 1200"
    and "pain_points lead = [''manual processes'', ''cost optimization'']"
    and "timeline lead = Some ''immediate''"
  shows "fst (qualify_lead self lid) = 955 / 10
       \<and> map_of (leads (snd (qualify_lead self lid))) lid
           = Some (lead\<lparr>qualification_score := 955 / 10, status := Status_member QUALIFIED\<rparr>)
       \<and> is_hot_lead (lead\<lparr>qualification_score := 955 / 10, status := Status_member QUALIFIED\<rparr>)
       \<and> 955 / 10 \<ge> hot_lead_threshold (scoring_criteria self)"
proof -
  have w: "weighted_score default_criteria lead = 191 / 2"
    using assms by (intro weighted_score_example) (simp_all add: example_pain_points_def)
  have t: "qualified_threshold default_criteria = 70"
    by (simp add: default_criteria_def)
  have q: "qualify_object default_criteria lead
           = lead\<lparr>qualification_score := 955 / 10, status := Status_member QUALIFIED\<rparr>"
    using assms(3) by (simp add: qualify_object_def w round2_example t)
  show ?thesis
    using assms(1,2) q
    by (simp add: qualify_lead_def map_of_update_same is_hot_lead_def default_criteria_def)
qed

definition example_lead_1 :: Lead where
  "example_lead_1 =
     \<lparr> first_name = ''Ada'', last_name = ''Byron'', email = ''ada@example.com'',
       company = ''Engines'', phone = None, title = None,
       lead_source = Source_member OTHER, status = Status_member NEW,
       created_at = None, updated_at = None, company_size = Some 1200,
       annual_revenue = None, budget = Some 120000, decision_maker = True,
       pain_points = [''manual processes'', ''cost optimization''],
       timeline = Some ''immediate'', qualification_score = 0, notes' = [], tags = [],
       id' = ''L1'', last_contacted = None, next_follow_up = None \<rparr>"

definition example_manager_1 :: LeadManager where
  "example_manager_1 =
     \<lparr> leads = [(''L1'', example_lead_1)], scoring_criteria = default_criteria,
       interaction_history = [(''L1'', [])] \<rparr>"

theorem qualify_lead_example_1_witness:
  "fst (qualify_lead example_manager_1 ''L1'') = 955 / 10
   \<and> map_of (leads (snd (qualify_lead example_manager_1 ''L1''))) ''L1''
       = Some (example_lead_1\<lparr>qualification_score := 955 / 10,
                               status := Status_member QUALIFIED\<rparr>)
   \<and> is_hot_lead (example_lead_1\<lparr>qualification_score := 955 / 10,
                                   status := Status_member QUALIFIED\<rparr>)
   \<and> 955 / 10 \<ge> hot_lead_threshold (scoring_criteria example_manager_1)"
  by (rule qualify_lead_example_1 [of example_manager_1 "''L1''" example_lead_1])
     (simp_all add: example_manager_1_def example_lead_1_def)

section \<open>Monotonicity of the banded sub-scores\<close>

text \<open>
  Claim C5 (as amended). For company sizes \<open>1 \<le> s1 \<le> s2\<close> the company-size sub-score
  at \<open>s2\<close> is at least the one at \<open>s1\<close>, and for budgets \<open>1 \<le> b1 \<le> b2\<close>, the annual
  revenue being the same, the budget sub-score at \<open>b2\<close> is at least the one at \<open>b1\<close>.
\<close>

theorem band_scores_monotone:
  "(0 < s1 \<and> s1 \<le> s2 \<longrightarrow> score_company_size (Some s1) \<le> score_company_size (Some s2))
   \<and> (0 < b1 \<and> b1 \<le> b2 \<longrightarrow> score_budget (Some b1) revenue \<le> score_budget (Some b2) revenue)"
  by (auto simp add: score_company_size_def score_budget_given)

theorem band_scores_monotone_witness:
  "(0::int) < 5 \<and> (5::int) \<le> 1200
   \<and> score_company_size (Some 5) \<le> score_company_size (Some 1200)
   \<and> (0::int) < 5000 \<and> (5000::int) \<le> 120000
   \<and> score_budget (Some 5000) None \<le> score_budget (Some 120000) None"
  using band_scores_monotone [of 5 1200 5000 120000 None] by simp

text \<open>
  A size or a budget of 0 fails the test \<^verbatim>\<open>if not company_size\<close> / \<^verbatim>\<open>if budget\<close> and is
  scored as unknown, above the lowest band: the sub-scores drop from 0 to 5 employees
  and from a budget of 0 to a budget of 5000.
\<close>

theorem band_scores_not_monotone_at_zero:
  "(0::int) \<le> 0 \<and> (0::int) \<le> 5
   \<and> score_company_size (Some 5) < score_company_size (Some 0)
   \<and> (0::int) \<le> 5000
   \<and> score_budget (Some 5000) None < score_budget (Some 0) None"
  by (simp add: score_company_size_def score_budget.simps)

section \<open>Rounding\<close>

lemma round_half_even_bounds: "\<lfloor>x\<rfloor> \<le> round_half_even x \<and> round_half_even x \<le> \<lfloor>x\<rfloor> + 1"
  by (simp add: round_half_even_def Let_def)

lemma round_half_even_close: "\<bar>of_int (round_half_even x) - x\<bar> \<le> 1 / 2"
proof -
  define d where "d = x - of_int \<lfloor>x\<rfloor>"
  have d: "0 \<le> d" "d < 1"
    unfolding d_def by linarith+
  have x: "x = of_int \<lfloor>x\<rfloor> + d"
    by (simp add: d_def)
  consider "d < 1 / 2" | "d > 1 / 2" | "d = 1 / 2"
    by linarith
  then show ?thesis
  proof cases
    case 1
    then have "round_half_even x = \<lfloor>x\<rfloor>"
      by (simp add: round_half_even_def Let_def d_def)
    then show ?thesis using d 1 x by (simp add: abs_if)
  next
    case 2
    then have "round_half_even x = \<lfloor>x\<rfloor> + 1"
      by (simp add: round_half_even_def Let_def d_def)
    then show ?thesis using d 2 x by (simp add: abs_if)
  next
    case 3
    then have "round_half_even x = \<lfloor>x\<rfloor> \<or> round_half_even x = \<lfloor>x\<rfloor> + 1"
      by (simp add: round_half_even_def Let_def d_def)
    then show ?thesis using d 3 x by (auto simp add: abs_if)
  qed
qed

lemma round_half_even_le: "x \<le> of_int n \<Longrightarrow> round_half_even x \<le> n"
proof (cases "x = of_int n")
  case True
  then show ?thesis by (simp add: round_half_even_def)
next
  case False
  assume "x \<le> of_int n"
  with False have "x < of_int n" by simp
  then have "\<lfloor>x\<rfloor> < n" by (simp add: floor_less_iff)
  then show ?thesis using round_half_even_bounds [of x] by linarith
qed

lemma round_half_even_ge: "of_int n \<le> x \<Longrightarrow> n \<le> round_half_even x"
proof -
  assume "of_int n \<le> x"
  then have "n \<le> \<lfloor>x\<rfloor>" by (simp add: le_floor_iff)
  then show ?thesis using round_half_even_bounds [of x] by linarith
qed

lemma round2_le: "x \<le> of_int n / 100 \<Longrightarrow> round2 x \<le> of_int n / 100"
proof -
  assume "x \<le> of_int n / 100"
  then have "x * 100 \<le> of_int n" by simp
  then have "round_half_even (x * 100) \<le> n" by (rule round_half_even_le)
  then have "(of_int (round_half_even (x * 100)) :: rat) \<le> of_int n" by simp
  then show ?thesis by (simp add: round2_def divide_right_mono)
qed

lemma round2_ge: "of_int n / 100 \<le> x \<Longrightarrow> of_int n / 100 \<le> round2 x"
proof -
  assume "of_int n / 100 \<le> x"
  then have "of_int n \<le> x * 100" by simp
  then have "n \<le> round_half_even (x * 100)" by (rule round_half_even_ge)
  then have "(of_int n :: rat) \<le> of_int (round_half_even (x * 100))" by simp
  then show ?thesis by (simp add: round2_def divide_right_mono)
qed

lemma round2_two_decimals: "\<exists>n::int. round2 x = of_int n / 100"
  by (auto simp add: round2_def)

lemma round2_close: "\<bar>round2 x - x\<bar> \<le> 1 / 200"
proof -
  define r where "r = (of_int (round_half_even (x * 100)) :: rat)"
  have "\<bar>r - x * 100\<bar> \<le> 1 / 2"
    unfolding r_def by (rule round_half_even_close)
  moreover have "round2 x = r / 100"
    by (simp add: round2_def r_def)
  ultimately show ?thesis
    by (simp add: abs_if split: if_splits)
qed

section \<open>The effect of scoring on one lead\<close>

definition derived_status :: "ScoringCriteria \<Rightarrow> rat \<Rightarrow> status_attr \<Rightarrow> status_attr" where
  "derived_status c q st =
     (if st = Status_member NEW
      then (if q \<ge> qualified_threshold c then Status_member QUALIFIED
            else Status_member UNQUALIFIED)
      else st)"

lemma qualify_object_eq:
  "qualify_object c lead =
     lead\<lparr>qualification_score := round2 (weighted_score c lead),
          status := derived_status c (round2 (weighted_score c lead)) (status lead)\<rparr>"
  by (simp add: qualify_object_def derived_status_def)

lemma weighted_score_qualify_object [simp]:
  "weighted_score c' (qualify_object c lead) = weighted_score c' lead"
  by (simp add: qualify_object_eq weighted_score_def)

lemma keys_update_present:
  "map_of al k = Some v \<Longrightarrow> map fst (AList.update k v' al) = map fst al"
  by (simp add: update_keys) (metis domI dom_map_of_conv_image_fst image_set)

lemma qualify_lead_found:
  "map_of (leads self) lid = Some lead \<Longrightarrow>
   qualify_lead self lid =
     (qualification_score (qualify_object (scoring_criteria self) lead),
      self\<lparr>leads := AList.update lid (qualify_object (scoring_criteria self) lead) (leads self)\<rparr>)"
  by (simp add: qualify_lead_def Let_def)

text \<open>
  Claim C7. For a stored lead, \<open>qualify_lead\<close> replaces the lead by a copy that differs
  in the fields \<open>qualification_score\<close> and \<open>status\<close> only. The score written is the
  weighted sum rounded to two decimals (a multiple of 0.01 within 0.005 of the sum).
  The status changes only from NEW: to QUALIFIED when the score reaches the qualified
  threshold, to UNQUALIFIED otherwise; any other status is kept. No other lead, the
  order of the leads, the criteria and the interaction log are touched.
\<close>

theorem qualify_lead_frame:
  assumes "map_of (leads self) lid = Some lead"
  shows "\<exists>q st.
           fst (qualify_lead self lid) = q
         \<and> map_of (leads (snd (qualify_lead self lid))) lid
             = Some (lead\<lparr>qualification_score := q, status := st\<rparr>)
         \<and> (\<exists>n::int. q = of_int n / 100)
         \<and> \<bar>q - weighted_score (scoring_criteria self) lead\<bar> \<le> 1 / 200
         \<and> (status lead \<noteq> Status_member NEW \<longrightarrow> st = status lead)
         \<and> (status lead = Status_member NEW \<and> q \<ge> qualified_threshold (scoring_criteria self)
              \<longrightarrow> st = Status_member QUALIFIED)
         \<and> (status lead = Status_member NEW \<and> q < qualified_threshold (scoring_criteria self)
              \<longrightarrow> st = Status_member UNQUALIFIED)
         \<and> (\<forall>k. k \<noteq> lid \<longrightarrow>
               map_of (leads (snd (qualify_lead self lid))) k = map_of (leads self) k)
         \<and> map fst (leads (snd (qualify_lead self lid))) = map fst (leads self)
         \<and> scoring_criteria (snd (qualify_lead self lid)) = scoring_criteria self
         \<and> interaction_history (snd (qualify_lead self lid)) = interaction_history self"
proof -
  let ?c = "scoring_criteria self"
  let ?q = "round2 (weighted_score ?c lead)"
  let ?st = "derived_status ?c ?q (status lead)"
  have obj: "qualify_object ?c lead = lead\<lparr>qualification_score := ?q, status := ?st\<rparr>"
    by (rule qualify_object_eq)
  have run: "qualify_lead self lid
             = (?q, self\<lparr>leads := AList.update lid (lead\<lparr>qualification_score := ?q, status := ?st\<rparr>)
                                    (leads self)\<rparr>)"
    using qualify_lead_found [OF assms] by (simp add: obj)
  have "fst (qualify_lead self lid) = ?q"
    by (simp add: run)
  moreover have "map_of (leads (snd (qualify_lead self lid))) lid
                 = Some (lead\<lparr>qualification_score := ?q, status := ?st\<rparr>)"
    by (simp add: run map_of_update_same)
  moreover have "\<exists>n::int. ?q = of_int n / 100"
    by (rule round2_two_decimals)
  moreover have "\<bar>?q - weighted_score ?c lead\<bar> \<le> 1 / 200"
    by (rule round2_close)
  moreover have "status lead \<noteq> Status_member NEW \<longrightarrow> ?st = status lead"
    by (simp add: derived_status_def)
  moreover have "status lead = Status_member NEW \<and> ?q \<ge> qualified_threshold ?c
                 \<longrightarrow> ?st = Status_member QUALIFIED"
    by (simp add: derived_status_def)
  moreover have "status lead = Status_member NEW \<and> ?q < qualified_threshold ?c
                 \<longrightarrow> ?st = Status_member UNQUALIFIED"
    by (simp add: derived_status_def)
  moreover have "\<forall>k. k \<noteq> lid \<longrightarrow>
                   map_of (leads (snd (qualify_lead self lid))) k = map_of (leads self) k"
    by (simp add: run map_of_update_other)
  moreover have "map fst (leads (snd (qualify_lead self lid))) = map fst (leads self)"
    using assms by (simp add: run keys_update_present)
  moreover have "scoring_criteria (snd (qualify_lead self lid)) = ?c"
    by (simp add: run)
  moreover have "interaction_history (snd (qualify_lead self lid)) = interaction_history self"
    by (simp add: run)
  ultimately show ?thesis by blast
qed

theorem qualify_lead_frame_witness:
  "map_of (leads example_manager_1) ''L1'' = Some example_lead_1
   \<and> (\<exists>q st.
         fst (qualify_lead example_manager_1 ''L1'') = q
       \<and> map_of (leads (snd (qualify_lead example_manager_1 ''L1''))) ''L1''
           = Some (example_lead_1\<lparr>qualification_score := q, status := st\<rparr>)
       \<and> (\<exists>n::int. q = of_int n / 100)
       \<and> \<bar>q - weighted_score (scoring_criteria example_manager_1) example_lead_1\<bar> \<le> 1 / 200
       \<and> (status example_lead_1 \<noteq> Status_member NEW \<longrightarrow> st = status example_lead_1)
       \<and> (status example_lead_1 = Status_member NEW
            \<and> q \<ge> qualified_threshold (scoring_criteria example_manager_1)
            \<longrightarrow> st = Status_member QUALIFIED)
       \<and> (status example_lead_1 = Status_member NEW
            \<and> q < qualified_threshold (scoring_criteria example_manager_1)
            \<longrightarrow> st = Status_member UNQUALIFIED)
       \<and> (\<forall>k. k \<noteq> ''L1'' \<longrightarrow>
             map_of (leads (snd (qualify_lead example_manager_1 ''L1''))) k
             = map_of (leads example_manager_1) k)
       \<and> map fst (leads (snd (qualify_lead example_manager_1 ''L1'')))
           = map fst (leads example_manager_1)
       \<and> scoring_criteria (snd (qualify_lead example_manager_1 ''L1''))
           = scoring_criteria example_manager_1
       \<and> interaction_history (snd (qualify_lead example_manager_1 ''L1''))
           = interaction_history example_manager_1)"
proof -
  have h: "map_of (leads example_manager_1) ''L1'' = Some example_lead_1"
    by (simp add: example_manager_1_def)
  show ?thesis
    using h qualify_lead_frame [OF h] by (rule conjI)
qed

section \<open>Replacing the scoring criteria\<close>

lemma update_as_map:
  "distinct (map fst al) \<Longrightarrow> map_of al k = Some l \<Longrightarrow>
   AList.update k (f l) al = map (\<lambda>(k', l'). (k', if k' = k then f l' else l')) al"
proof (induction al)
  case Nil
  then show ?case by simp
next
  case (Cons p al)
  obtain k0 l0 where p: "p = (k0, l0)" by (cases p)
  show ?case
  proof (cases "k0 = k")
    case True
    with Cons.prems p have "l0 = l" by simp
    moreover have "map (\<lambda>(k', l'). (k', if k' = k then f l' else l')) al = al"
      using Cons.prems(1) True p by (intro map_idI) (auto simp add: rev_image_eqI)
    ultimately show ?thesis using True p by simp
  next
    case False
    with Cons p show ?thesis by simp
  qed
qed

lemma qualify_lead_as_map:
  assumes "distinct (map fst (leads self))" "map_of (leads self) k = Some l"
  shows "snd (qualify_lead self k)
         = self\<lparr>leads := map (\<lambda>(k', l'). (k', if k' = k
                                 then qualify_object (scoring_criteria self) l' else l'))
                             (leads self)\<rparr>"
  using update_as_map [OF assms, of "qualify_object (scoring_criteria self)"]
  by (simp add: qualify_lead_found [OF assms(2)])

lemma fold_qualify_lead:
  "distinct (map fst (leads self)) \<Longrightarrow> distinct ks \<Longrightarrow> set ks \<subseteq> fst ` set (leads self) \<Longrightarrow>
   fold (\<lambda>lead_id self. snd (qualify_lead self lead_id)) ks self
   = self\<lparr>leads := map (\<lambda>(k', l'). (k', if k' \<in> set ks
                            then qualify_object (scoring_criteria self) l' else l'))
                       (leads self)\<rparr>"
proof (induction ks arbitrary: self)
  case Nil
  have "map (\<lambda>(k', l'). (k', l')) (leads self) = leads self"
    by (intro map_idI) auto
  then show ?case by simp
next
  case (Cons k ks)
  let ?c = "scoring_criteria self"
  let ?s1 = "snd (qualify_lead self k)"
  from Cons.prems(3) have "k \<in> fst ` set (leads self)" by simp
  then obtain l where l: "map_of (leads self) k = Some l"
    by (metis domD dom_map_of_conv_image_fst)
  have s1: "?s1 = self\<lparr>leads := map (\<lambda>(k', l'). (k', if k' = k
                                 then qualify_object ?c l' else l')) (leads self)\<rparr>"
    using qualify_lead_as_map [OF Cons.prems(1) l] .
  have keys: "map fst (leads ?s1) = map fst (leads self)"
    by (simp add: s1 comp_def case_prod_beta)
  have "fold (\<lambda>lead_id self. snd (qualify_lead self lead_id)) ks ?s1
        = ?s1\<lparr>leads := map (\<lambda>(k', l'). (k', if k' \<in> set ks
                            then qualify_object (scoring_criteria ?s1) l' else l'))
                       (leads ?s1)\<rparr>"
  proof (rule Cons.IH)
    show "distinct (map fst (leads ?s1))" using Cons.prems(1) keys by simp
    show "distinct ks" using Cons.prems(2) by simp
    have "fst ` set (leads ?s1) = fst ` set (leads self)"
      using keys by (metis list.set_map)
    then show "set ks \<subseteq> fst ` set (leads ?s1)" using Cons.prems(3) by simp
  qed
  moreover have "k \<notin> set ks" using Cons.prems(2) by simp
  ultimately show ?case
    by (auto simp add: s1 case_prod_beta intro!: map_cong [OF refl])
qed

lemma update_scoring_criteria_accept:
  assumes "distinct (map fst (leads self))" "validate_weights c"
  shows "update_scoring_criteria self c
         = (True, self\<lparr>scoring_criteria := c,
                       leads := map (\<lambda>(k, l). (k, qualify_object c l)) (leads self)\<rparr>)"
proof -
  let ?s0 = "self\<lparr>scoring_criteria := c\<rparr>"
  have run: "update_scoring_criteria self c
             = (True, fold (\<lambda>lead_id self. snd (qualify_lead self lead_id))
                        (map fst (leads ?s0)) ?s0)"
    using assms(2) by (simp add: update_scoring_criteria_def Let_def)
  have loop: "fold (\<lambda>lead_id self. snd (qualify_lead self lead_id)) (map fst (leads ?s0)) ?s0
        = ?s0\<lparr>leads := map (\<lambda>(k', l'). (k', if k' \<in> set (map fst (leads ?s0))
                            then qualify_object (scoring_criteria ?s0) l' else l'))
                       (leads ?s0)\<rparr>"
    by (rule fold_qualify_lead) (use assms(1) in auto)
  have all: "map (\<lambda>(k', l'). (k', if k' \<in> set (map fst (leads ?s0))
                            then qualify_object (scoring_criteria ?s0) l' else l')) (leads ?s0)
                 = map (\<lambda>(k, l). (k, qualify_object c l)) (leads self)"
    by (auto simp add: rev_image_eqI intro!: map_cong [OF refl])
  show ?thesis
    unfolding run loop all by simp
qed


definition criteria_sum_09 :: ScoringCriteria where
  "criteria_sum_09 =
     \<lparr> company_size_weight = 25 / 100, budget_weight = 30 / 100,
       authority_weight = 20 / 100, need_weight = 15 / 100,
       timeline_weight = 0,
       qualified_threshold = 70, hot_lead_threshold = 85 \<rparr>"

definition need_heavy_criteria :: ScoringCriteria where
  "need_heavy_criteria =
     \<lparr> company_size_weight = 20 / 100, budget_weight = 30 / 100,
       authority_weight = 20 / 100, need_weight = 20 / 100,
       timeline_weight = 10 / 100,
       qualified_threshold = 60, hot_lead_threshold = 80 \<rparr>"


section \<open>Updating a lead\<close>

lemma fold_notes_score:
  "\<forall>u \<in> set updates. \<exists>v. u = Set_notes v \<Longrightarrow>
   qualification_score (fold apply_update updates lead) = qualification_score lead"
  by (induction updates arbitrary: lead) auto

lemma fold_notes_not_qualifying:
  "\<forall>u \<in> set updates. \<exists>v. u = Set_notes v \<Longrightarrow> \<not> list_ex in_qualification_fields updates"
  by (induction updates) auto

lemma update_lead_found:
  "map_of (leads self) lid = Some lead \<Longrightarrow>
   update_lead now self lid updates =
     (let self1 = self\<lparr>leads := AList.update lid
                       ((fold apply_update updates lead)\<lparr>updated_at := Some (Time_str now)\<rparr>)
                       (leads self)\<rparr>
      in (True, if list_ex in_qualification_fields updates
                then snd (qualify_lead self1 lid) else self1))"
  by (simp add: update_lead_def Let_def)



section \<open>Adding a lead whose email is already stored\<close>

lemma find_lead_by_email_hit:
  assumes "(k, l) \<in> set (leads self)" "lower addr = lower (email l)"
  shows "find_lead_by_email self addr \<noteq> None"
proof -
  have "l \<in> set (map snd (leads self))"
    using assms(1) by (simp add: rev_image_eqI)
  moreover have "lower (email l) = lower addr"
    using assms(2) by simp
  ultimately show ?thesis
    unfolding find_lead_by_email_def find_None_iff by blast
qed


definition upper_case_duplicate :: Lead where
  "upper_case_duplicate =
     \<lparr> first_name = ''Augusta'', last_name = ''King'', email = ''ADA@Example.COM'',
       company = ''Analytical'', phone = None, title = None,
       lead_source = Source_member OTHER, status = Status_member NEW,
       created_at = None, updated_at = None, company_size = None,
       annual_revenue = None, budget = None, decision_maker = False,
       pain_points = [], timeline = None, qualification_score = 0, notes' = [], tags = [],
       id' = ''L2'', last_contacted = None, next_follow_up = None \<rparr>"

lemma lower_example_emails: "lower ''ADA@Example.COM'' = lower ''ada@example.com''"
  by code_simp


definition blank_name_lead :: Lead where
  "blank_name_lead = upper_case_duplicate\<lparr>first_name := [], email := ''new@example.com''\<rparr>"


section \<open>Range of the scores\<close>

lemma score_company_size_range: "0 \<le> score_company_size n \<and> score_company_size n \<le> 100"
  by (simp add: score_company_size_def split: option.split)

lemma score_budget_range: "0 \<le> score_budget b r \<and> score_budget b r \<le> 100"
proof (cases "truthy_int b")
  case (Some v)
  then show ?thesis by (simp add: score_budget.simps)
next
  case None
  note b = this
  show ?thesis
  proof (cases "truthy_int r")
    case None
    with b show ?thesis by (simp add: score_budget.simps)
  next
    case (Some v)
    have "0 \<le> score_budget (Some n) None \<and> score_budget (Some n) None \<le> 100" for n
      by (simp add: score_budget.simps [of "Some n" None])
    with b Some show ?thesis by (simp add: score_budget.simps [of b r] Let_def)
  qed
qed

lemma score_authority_range: "0 \<le> score_authority d t \<and> score_authority d t \<le> 100"
  by (simp add: score_authority_def Let_def split: option.split)

lemma score_need_range: "0 \<le> score_need p \<and> score_need p \<le> 100"
  by (simp add: score_need_def Let_def min_def)

lemma score_timeline_range: "0 \<le> score_timeline t \<and> score_timeline t \<le> 100"
  by (simp add: score_timeline_def timeline_scores_def split: option.split)

lemma qualification_score_qualify_object:
  "qualification_score (qualify_object c lead) = round2 (weighted_score c lead)"
  by (simp add: qualify_object_eq)

lemma weighted_term_range:
  fixes s w :: rat
  assumes "0 \<le> s \<and> s \<le> 100" "0 \<le> w"
  shows "0 \<le> s * w \<and> s * w \<le> 100 * w"
  using assms by (simp add: mult_right_mono)

lemma weighted_score_range:
  assumes "0 \<le> company_size_weight c" "0 \<le> budget_weight c" "0 \<le> authority_weight c"
    and "0 \<le> need_weight c" "0 \<le> timeline_weight c"
  shows "0 \<le> weighted_score c lead
       \<and> weighted_score c lead
           \<le> 100 * (company_size_weight c + budget_weight c + authority_weight c
                     + need_weight c + timeline_weight c)"
proof -
  note t1 = weighted_term_range [OF score_company_size_range assms(1)]
  note t2 = weighted_term_range [OF score_budget_range assms(2)]
  note t3 = weighted_term_range [OF score_authority_range assms(3)]
  note t4 = weighted_term_range [OF score_need_range assms(4)]
  note t5 = weighted_term_range [OF score_timeline_range assms(5)]
  have "weighted_score c lead
        = score_company_size (company_size lead) * company_size_weight c
        + score_budget (budget lead) (annual_revenue lead) * budget_weight c
        + score_authority (decision_maker lead) (title lead) * authority_weight c
        + score_need (pain_points lead) * need_weight c
        + score_timeline (timeline lead) * timeline_weight c"
    by (simp add: weighted_score_def)
  then show ?thesis
    using t1 [of "company_size lead"] t2 [of "budget lead" "annual_revenue lead"]
      t3 [of "decision_maker lead" "title lead"] t4 [of "pain_points lead"]
      t5 [of "timeline lead"]
    by (auto simp add: distrib_left)
qed

text \<open>
  Claim C6 (as amended). Under criteria whose five weights are each non-negative and
  sum to 1.0 within 0.001, the score returned by \<open>qualify_lead\<close> lies in [0, 100.1];
  it lies in [0, 100] when in addition the weights sum to at most 1.0.
\<close>

theorem qualify_lead_score_range:
  assumes "0 \<le> company_size_weight (scoring_criteria self)"
    and "0 \<le> budget_weight (scoring_criteria self)"
    and "0 \<le> authority_weight (scoring_criteria self)"
    and "0 \<le> need_weight (scoring_criteria self)"
    and "0 \<le> timeline_weight (scoring_criteria self)"
    and "validate_weights (scoring_criteria self)"
  shows "0 \<le> fst (qualify_lead self lid)
       \<and> fst (qualify_lead self lid) \<le> 1001 / 10
       \<and> (company_size_weight (scoring_criteria self) + budget_weight (scoring_criteria self)
            + authority_weight (scoring_criteria self) + need_weight (scoring_criteria self)
            + timeline_weight (scoring_criteria self) \<le> 1
           \<longrightarrow> fst (qualify_lead self lid) \<le> 100)"
proof (cases "map_of (leads self) lid")
  case None
  then show ?thesis by (simp add: qualify_lead_def)
next
  case (Some lead)
  let ?c = "scoring_criteria self"
  let ?total = "company_size_weight ?c + budget_weight ?c + authority_weight ?c
                + need_weight ?c + timeline_weight ?c"
  let ?w = "weighted_score ?c lead"
  have ret: "fst (qualify_lead self lid) = round2 ?w"
    by (simp add: qualify_lead_found [OF Some] qualify_object_eq)
  have range: "0 \<le> ?w \<and> ?w \<le> 100 * ?total"
    using assms(1-5) by (rule weighted_score_range)
  have total: "?total < 1001 / 1000"
    using assms(6) by (simp add: validate_weights_def Let_def abs_if split: if_splits)
  have lo: "0 \<le> round2 ?w"
    using round2_ge [of 0 ?w] range by simp
  have hi: "round2 ?w \<le> 1001 / 10"
  proof -
    have "?w \<le> of_int 10010 / 100" using range total by simp
    then have "round2 ?w \<le> of_int 10010 / 100" by (rule round2_le)
    then show ?thesis by simp
  qed
  have hi1: "round2 ?w \<le> 100" if "?total \<le> 1"
  proof -
    have "?w \<le> of_int 10000 / 100" using range that by simp
    then have "round2 ?w \<le> of_int 10000 / 100" by (rule round2_le)
    then show ?thesis by simp
  qed
  show ?thesis
    unfolding ret using lo hi hi1 by blast
qed

theorem qualify_lead_score_range_witness:
  "0 \<le> company_size_weight (scoring_criteria example_manager_1)
   \<and> 0 \<le> budget_weight (scoring_criteria example_manager_1)
   \<and> 0 \<le> authority_weight (scoring_criteria example_manager_1)
   \<and> 0 \<le> need_weight (scoring_criteria example_manager_1)
   \<and> 0 \<le> timeline_weight (scoring_criteria example_manager_1)
   \<and> validate_weights (scoring_criteria example_manager_1)
   \<and> company_size_weight (scoring_criteria example_manager_1)
       + budget_weight (scoring_criteria example_manager_1)
       + authority_weight (scoring_criteria example_manager_1)
       + need_weight (scoring_criteria example_manager_1)
       + timeline_weight (scoring_criteria example_manager_1) \<le> 1
   \<and> 0 \<le> fst (qualify_lead example_manager_1 ''L1'')
   \<and> fst (qualify_lead example_manager_1 ''L1'') \<le> 100"
proof -
  have c: "scoring_criteria example_manager_1 = default_criteria"
    by (simp add: example_manager_1_def)
  have w: "0 \<le> company_size_weight (scoring_criteria example_manager_1)"
    "0 \<le> budget_weight (scoring_criteria example_manager_1)"
    "0 \<le> authority_weight (scoring_criteria example_manager_1)"
    "0 \<le> need_weight (scoring_criteria example_manager_1)"
    "0 \<le> timeline_weight (scoring_criteria example_manager_1)"
    by (simp_all add: c default_criteria_def)
  have v: "validate_weights (scoring_criteria example_manager_1)"
    by (simp add: c default_criteria_def validate_weights_def)
  have t: "company_size_weight (scoring_criteria example_manager_1)
       + budget_weight (scoring_criteria example_manager_1)
       + authority_weight (scoring_criteria example_manager_1)
       + need_weight (scoring_criteria example_manager_1)
       + timeline_weight (scoring_criteria example_manager_1) \<le> 1"
    by (simp add: c default_criteria_def)
  show ?thesis
    using w v t qualify_lead_score_range [OF w v, of "''L1''"] by blast
qed

definition over_unit_criteria :: ScoringCriteria where
  "over_unit_criteria =
     \<lparr> company_size_weight = 2509 / 10000, budget_weight = 30 / 100,
       authority_weight = 20 / 100, need_weight = 15 / 100,
       timeline_weight = 10 / 100,
       qualified_threshold = 70, hot_lead_threshold = 85 \<rparr>"

definition four_pain_points :: "string list" where
  "four_pain_points =
     [''manual processes'', ''cost optimization'', ''data silos'', ''scaling challenges'']"

definition strong_lead :: Lead where
  "strong_lead = example_lead_1\<lparr>pain_points := four_pain_points\<rparr>"

lemma score_need_four: "score_need four_pain_points = 100"
  unfolding four_pain_points_def by code_simp

text \<open>
  Weights 0.2509, 0.30, 0.20, 0.15, 0.10 sum to 1.0009 and pass the tolerance test, so
  a repository can be built with them; a lead whose five sub-scores are all 100 is then
  scored 100.09.
\<close>

theorem score_above_100_under_tolerated_weights:
  "validate_weights over_unit_criteria
   \<and> init_manager over_unit_criteria
       = Inr \<lparr> leads = [], scoring_criteria = over_unit_criteria, interaction_history = [] \<rparr>
   \<and> fst (add_lead ''u1'' ''t1''
             \<lparr> leads = [], scoring_criteria = over_unit_criteria, interaction_history = [] \<rparr>
             strong_lead) = Inr ''L1''
   \<and> fst (qualify_lead
             (snd (add_lead ''u1'' ''t1''
                \<lparr> leads = [], scoring_criteria = over_unit_criteria, interaction_history = [] \<rparr>
                strong_lead)) ''L1'') = 10009 / 100
   \<and> \<not> (10009 / 100 \<le> (100::rat))"
proof -
  let ?m = "\<lparr> leads = [], scoring_criteria = over_unit_criteria, interaction_history = [] \<rparr>"
  have v: "validate_weights over_unit_criteria"
    by (simp add: validate_weights_def over_unit_criteria_def)
  have i: "init_manager over_unit_criteria = Inr ?m"
    by (simp add: init_manager_def v)
  have w: "weighted_score over_unit_criteria l = 10009 / 100"
    if "decision_maker l" "budget l = Some 120000" "company_size l = Some 1200"
      "pain_points l = four_pain_points" "timeline l = Some ''immediate''" for l
    using that
    by (simp add: weighted_score_def over_unit_criteria_def score_company_size_def
        score_budget_given score_authority_def score_need_four score_timeline_immediate)
  have r: "round2 (10009 / 100) = 10009 / 100"
    using round2_fixed [of 10009] by simp
  let ?l1 = "strong_lead\<lparr>updated_at := Some (Time_str ''t1'')\<rparr>"
  have w1: "weighted_score over_unit_criteria ?l1 = 10009 / 100"
    by (rule w) (simp_all add: strong_lead_def example_lead_1_def)
  have a: "add_lead ''u1'' ''t1'' ?m strong_lead
           = (Inr ''L1'',
              \<lparr> leads = [(''L1'', qualify_object over_unit_criteria ?l1)],
                scoring_criteria = over_unit_criteria,
                interaction_history = [(''L1'', [])] \<rparr>)"
    by (simp add: add_lead_def find_lead_by_email_def qualify_lead_def Let_def
        strong_lead_def example_lead_1_def)
  have "fst (qualify_lead (snd (add_lead ''u1'' ''t1'' ?m strong_lead)) ''L1'') = 10009 / 100"
    unfolding a by (simp add: qualify_lead_def Let_def qualification_score_qualify_object w1 r)
  with v i a show ?thesis by simp
qed

section \<open>The outcomes of adding a lead\<close>

lemma add_lead_cases:
  "add_lead uuid now self lead =
     (let lead0 = (if id' lead = [] then lead\<lparr>id' := uuid\<rparr> else lead)
      in if \<not> (first_name lead \<noteq> [] \<and> last_name lead \<noteq> []
                \<and> email lead \<noteq> [] \<and> company lead \<noteq> [])
         then (Inl (ValueError
                 ''Lead must have first_name, last_name, email, and company''), self)
         else if find_lead_by_email self (email lead) \<noteq> None
         then (Inl (ValueError
                 (''Lead with email '' @ email lead @ '' already exists'')), self)
         else (Inr (id' lead0),
               self\<lparr>leads := AList.update (id' lead0)
                        (qualify_object (scoring_criteria self)
                           (lead0\<lparr>updated_at := Some (Time_str now)\<rparr>))
                        (leads self),
                    interaction_history :=
                      AList.update (id' lead0) [] (interaction_history self)\<rparr>))"
  by (simp add: add_lead_def qualify_lead_def Let_def map_of_update_same)

section \<open>The filtered views and the configured thresholds\<close>

definition low_threshold_criteria :: ScoringCriteria where
  "low_threshold_criteria =
     \<lparr> company_size_weight = 25 / 100, budget_weight = 30 / 100,
       authority_weight = 20 / 100, need_weight = 15 / 100,
       timeline_weight = 10 / 100,
       qualified_threshold = 30, hot_lead_threshold = 35 \<rparr>"

definition unknown_lead :: Lead where
  "unknown_lead =
     \<lparr> first_name = ''Grace'', last_name = ''Hopper'', email = ''grace@example.com'',
       company = ''Compilers'', phone = None, title = None,
       lead_source = Source_member OTHER, status = Status_member NEW,
       created_at = None, updated_at = None, company_size = None,
       annual_revenue = None, budget = None, decision_maker = False,
       pain_points = [], timeline = None, qualification_score = 0, notes' = [], tags = [],
       id' = ''L2'', last_contacted = None, next_follow_up = None \<rparr>"

lemma weighted_score_unknown:
  assumes "company_size l = None" "budget l = None" "annual_revenue l = None"
    and "\<not> decision_maker l" "title l = None" "pain_points l = []" "timeline l = None"
  shows "weighted_score low_threshold_criteria l = 38"
  using assms
  by (simp add: weighted_score_def low_threshold_criteria_def score_company_size_def
      score_budget.simps score_authority_def score_need_def score_timeline_def)

text \<open>
  Claim C2, evaluated where it fails. The repository is built with qualified threshold
  30 and hot-lead threshold 35. The lead of Example 2 of the specification is scored
  38.0, and \<open>qualify_lead\<close> marks it QUALIFIED against the configured threshold; yet
  \<open>get_qualified_leads\<close> and \<open>get_hot_leads\<close>, which compare with the constants 70 and
  85 of \<open>is_qualified\<close> and \<open>is_hot_lead\<close>, both return the empty list.
\<close>

theorem views_ignore_configured_thresholds:
  "init_manager low_threshold_criteria
     = Inr \<lparr> leads = [], scoring_criteria = low_threshold_criteria, interaction_history = [] \<rparr>
   \<and> fst (add_lead ''u1'' ''t1''
            \<lparr> leads = [], scoring_criteria = low_threshold_criteria, interaction_history = [] \<rparr>
            unknown_lead) = Inr ''L2''
   \<and> map (\<lambda>(k, l). (k, qualification_score l, status l))
        (leads (snd (add_lead ''u1'' ''t1''
            \<lparr> leads = [], scoring_criteria = low_threshold_criteria, interaction_history = [] \<rparr>
            unknown_lead)))
       = [(''L2'', 38, Status_member QUALIFIED)]
   \<and> qualified_threshold (scoring_criteria (snd (add_lead ''u1'' ''t1''
            \<lparr> leads = [], scoring_criteria = low_threshold_criteria, interaction_history = [] \<rparr>
            unknown_lead))) = 30
   \<and> hot_lead_threshold (scoring_criteria (snd (add_lead ''u1'' ''t1''
            \<lparr> leads = [], scoring_criteria = low_threshold_criteria, interaction_history = [] \<rparr>
            unknown_lead))) = 35
   \<and> get_qualified_leads (snd (add_lead ''u1'' ''t1''
            \<lparr> leads = [], scoring_criteria = low_threshold_criteria, interaction_history = [] \<rparr>
            unknown_lead)) = []
   \<and> get_hot_leads (snd (add_lead ''u1'' ''t1''
            \<lparr> leads = [], scoring_criteria = low_threshold_criteria, interaction_history = [] \<rparr>
            unknown_lead)) = []"
proof -
  let ?m = "\<lparr> leads = [], scoring_criteria = low_threshold_criteria, interaction_history = [] \<rparr>"
  let ?l1 = "unknown_lead\<lparr>updated_at := Some (Time_str ''t1'')\<rparr>"
  have i: "init_manager low_threshold_criteria = Inr ?m"
    by (simp add: init_manager_def validate_weights_def low_threshold_criteria_def)
  have w: "weighted_score low_threshold_criteria ?l1 = 38"
    by (rule weighted_score_unknown) (simp_all add: unknown_lead_def)
  have r: "round2 38 = 38"
    using round2_fixed [of 3800] by simp
  have t: "qualified_threshold low_threshold_criteria = 30"
    "hot_lead_threshold low_threshold_criteria = 35"
    by (simp_all add: low_threshold_criteria_def)
  have st: "status ?l1 = Status_member NEW"
    by (simp add: unknown_lead_def)
  have q: "qualify_object low_threshold_criteria ?l1
           = ?l1\<lparr>qualification_score := 38, status := Status_member QUALIFIED\<rparr>"
    by (simp add: qualify_object_eq w r derived_status_def t st)
  have req: "first_name unknown_lead \<noteq> [] \<and> last_name unknown_lead \<noteq> []
             \<and> email unknown_lead \<noteq> [] \<and> company unknown_lead \<noteq> []"
    by (simp add: unknown_lead_def)
  have idl: "id' unknown_lead = ''L2''"
    by (simp add: unknown_lead_def)
  have a: "add_lead ''u1'' ''t1'' ?m unknown_lead
           = (Inr ''L2'',
              \<lparr> leads = [(''L2'', ?l1\<lparr>qualification_score := 38,
                                        status := Status_member QUALIFIED\<rparr>)],
                scoring_criteria = low_threshold_criteria,
                interaction_history = [(''L2'', [])] \<rparr>)"
    by (simp add: add_lead_cases req idl find_lead_by_email_def q)
  show ?thesis
    unfolding a
    by (simp add: i t get_qualified_leads_def get_hot_leads_def is_qualified_def
        is_hot_lead_def)
qed

section \<open>Export after a lead has been added\<close>

lemma source_value_error: "source_value x = Inl e \<Longrightarrow> \<exists>msg. e = AttributeError msg"
  by (cases x) auto

lemma status_value_error: "status_value x = Inl e \<Longrightarrow> \<exists>msg. e = AttributeError msg"
  by (cases x) auto

lemma isoformat_error: "isoformat x = Inl e \<Longrightarrow> \<exists>msg. e = AttributeError msg"
  by (cases x rule: isoformat.cases) auto

lemma isoformat_if_set_error: "isoformat_if_set x = Inl e \<Longrightarrow> \<exists>msg. e = AttributeError msg"
  by (cases x rule: isoformat_if_set.cases) (auto split: if_splits)

lemma export_lead_error: "export_lead l = Inl e \<Longrightarrow> \<exists>msg. e = AttributeError msg"
  unfolding export_lead_def
  by (auto split: sum.splits
      dest: source_value_error status_value_error isoformat_error isoformat_if_set_error)

lemma export_lead_str_updated_at:
  assumes "updated_at l = Some (Time_str s)"
  shows "\<exists>msg. export_lead l = Inl (AttributeError msg)"
proof (cases "export_lead l")
  case (Inl e)
  then show ?thesis using export_lead_error by blast
next
  case (Inr doc)
  then have "\<exists>d. isoformat (updated_at l) = Inr d"
    unfolding export_lead_def by (auto split: sum.splits)
  with assms show ?thesis by simp
qed

lemma export_entries_failing_lead:
  "(k, l) \<in> set al \<Longrightarrow> \<exists>msg. export_lead l = Inl (AttributeError msg) \<Longrightarrow>
   \<exists>msg. export_entries entries al = Inl (AttributeError msg)"
proof (induction al arbitrary: entries)
  case Nil
  then show ?case by simp
next
  case (Cons p al)
  obtain k0 l0 where p: "p = (k0, l0)" by (cases p)
  show ?case
  proof (cases "export_lead l0")
    case (Inl e)
    then show ?thesis using p export_lead_error [OF Inl] by auto
  next
    case (Inr entry)
    with Cons.prems p have "(k, l) \<in> set al" by auto
    then have "\<exists>msg. export_entries (AList.update k0 entry entries) al = Inl (AttributeError msg)"
      using Cons.prems(2) by (rule Cons.IH)
    then show ?thesis using p Inr by simp
  qed
qed

lemma updated_at_qualify_object [simp]: "updated_at (qualify_object c l) = updated_at l"
  by (simp add: qualify_object_eq)

lemma add_lead_stores_str_updated_at:
  assumes "fst (add_lead uuid now self lead) = Inr lid"
  shows "\<exists>l. map_of (leads (snd (add_lead uuid now self lead))) lid = Some l
             \<and> updated_at l = Some (Time_str now)"
  using assms
  by (auto simp add: add_lead_cases Let_def map_of_update_same split: if_splits)

text \<open>
  Claim C3, evaluated where it fails. Whenever \<open>add_lead\<close> has succeeded, the stored
  lead carries \<open>updated_at = str(datetime.now())\<close>, a string, and \<open>export_leads_json\<close>
  calls \<open>.isoformat()\<close> on it: on the resulting repository the export raises an
  \<open>AttributeError\<close> instead of returning a document.
\<close>

theorem export_raises_after_add_lead:
  assumes "fst (add_lead uuid now self lead) = Inr lid"
  shows "\<exists>msg. export_leads_json export_time (snd (add_lead uuid now self lead))
               = Inl (AttributeError msg)"
proof -
  let ?self' = "snd (add_lead uuid now self lead)"
  obtain l where l: "map_of (leads ?self') lid = Some l" "updated_at l = Some (Time_str now)"
    using add_lead_stores_str_updated_at [OF assms] by blast
  have "(lid, l) \<in> set (leads ?self')"
    using l(1) by (rule map_of_SomeD)
  moreover have "\<exists>msg. export_lead l = Inl (AttributeError msg)"
    using l(2) by (rule export_lead_str_updated_at)
  ultimately obtain msg where "export_entries [] (leads ?self') = Inl (AttributeError msg)"
    using export_entries_failing_lead by blast
  then show ?thesis
    by (simp add: export_leads_json_def Let_def)
qed

definition empty_manager :: LeadManager where
  "empty_manager =
     \<lparr> leads = [], scoring_criteria = default_criteria, interaction_history = [] \<rparr>"

lemma add_example_lead_1:
  "fst (add_lead ''u1'' ''2024-05-01 10:00:00'' empty_manager example_lead_1) = Inr ''L1''"
  by (simp add: add_lead_cases find_lead_by_email_def empty_manager_def example_lead_1_def)

theorem export_raises_after_add_lead_witness:
  "init_manager default_criteria = Inr empty_manager
   \<and> fst (add_lead ''u1'' ''2024-05-01 10:00:00'' empty_manager example_lead_1) = Inr ''L1''
   \<and> (\<exists>msg. export_leads_json ''2024-05-02T09:00:00''
               (snd (add_lead ''u1'' ''2024-05-01 10:00:00'' empty_manager example_lead_1))
             = Inl (AttributeError msg))"
proof -
  have "init_manager default_criteria = Inr empty_manager"
    by (simp add: init_manager_def validate_weights_def default_criteria_def empty_manager_def)
  then show ?thesis
    using add_example_lead_1 export_raises_after_add_lead [OF add_example_lead_1]
    by blast
qed

section \<open>Bulk ingestion keeps the raw strings\<close>

text \<open>The lead's \<open>status\<close> and \<open>lead_source\<close> are the strings of the dictionary \<open>data\<close>.\<close>

definition stores_raw_strings :: "LeadData \<Rightarrow> Lead \<Rightarrow> bool" where
  "stores_raw_strings data lead =
     (status lead = Status_str (get_default (data_status data) ''new'')
      \<and> lead_source lead = Source_str (get_default (data_lead_source data) ''other''))"

lemma qualify_object_keeps_str_status:
  "status lead = Status_str s \<Longrightarrow> status (qualify_object c lead) = Status_str s"
  by (simp add: qualify_object_eq derived_status_def)

lemma qualify_object_keeps_source [simp]:
  "lead_source (qualify_object c lead) = lead_source lead"
  by (simp add: qualify_object_eq)

lemma stores_raw_strings_qualify_object:
  "stores_raw_strings data lead \<Longrightarrow> stores_raw_strings data (qualify_object c lead)"
  by (simp add: stores_raw_strings_def qualify_object_keeps_str_status)

lemma create_lead_object_failed:
  "fst (create_lead_object uuid now self data) = Inl e \<Longrightarrow>
   snd (create_lead_object uuid now self data) = self"
  unfolding create_lead_object_def
  by (auto simp add: add_lead_cases Let_def split: sum.splits if_splits)

lemma add_lead_created:
  assumes "fst (add_lead uuid now self r) = Inr lid"
  shows "\<exists>r'. status r' = status r \<and> lead_source r' = lead_source r
          \<and> leads (snd (add_lead uuid now self r))
              = AList.update lid (qualify_object (scoring_criteria self) r') (leads self)"
proof -
  let ?r0 = "if id' r = [] then r\<lparr>id' := uuid\<rparr> else r"
  let ?r1 = "?r0\<lparr>updated_at := Some (Time_str now)\<rparr>"
  have "status ?r1 = status r" "lead_source ?r1 = lead_source r"
    by simp_all
  moreover have "leads (snd (add_lead uuid now self r))
        = AList.update lid (qualify_object (scoring_criteria self) ?r1) (leads self)"
    using assms by (auto simp add: add_lead_cases Let_def split: if_splits)
  ultimately show ?thesis by blast
qed

lemma create_lead_object_calls_add_lead:
  assumes "fst (create_lead_object uuid now self data) = Inr lid"
  shows "\<exists>r. status r = Status_str (get_default (data_status data) ''new'')
          \<and> lead_source r = Source_str (get_default (data_lead_source data) ''other'')
          \<and> create_lead_object uuid now self data = add_lead uuid now self r"
proof -
  obtain src st fname lname addr org where ok:
    "LeadSource_of (get_default (data_lead_source data) ''other'') = Inr src"
    "LeadStatus_of (get_default (data_status data) ''new'') = Inr st"
    "subscript ''first_name'' (data_first_name data) = Inr fname"
    "subscript ''last_name'' (data_last_name data) = Inr lname"
    "subscript ''email'' (data_email data) = Inr addr"
    "subscript ''company'' (data_company data) = Inr org"
    using assms unfolding create_lead_object_def by (auto split: sum.splits)
  let ?r = "\<lparr> first_name = fname, last_name = lname, email = addr, company = org,
            phone = data_phone data, title = data_title data,
            lead_source = Source_str (get_default (data_lead_source data) ''other''),
            status = Status_str (get_default (data_status data) ''new''),
            created_at = None, updated_at = None,
            company_size = data_company_size data,
            annual_revenue = data_annual_revenue data,
            budget = data_budget data,
            decision_maker = get_default (data_decision_maker data) False,
            pain_points = get_default (data_pain_points data) [],
            timeline = data_timeline data,
            qualification_score = 0,
            notes' = get_default (data_notes data) [],
            tags = get_default (data_tags data) [],
            id' = uuid, last_contacted = None, next_follow_up = None \<rparr>"
  have "create_lead_object uuid now self data = add_lead uuid now self ?r"
    unfolding create_lead_object_def by (simp add: ok)
  moreover have "status ?r = Status_str (get_default (data_status data) ''new'')"
    "lead_source ?r = Source_str (get_default (data_lead_source data) ''other'')"
    by simp_all
  ultimately show ?thesis by blast
qed

lemma create_lead_object_created:
  assumes "fst (create_lead_object uuid now self data) = Inr lid"
  shows "\<exists>lead. stores_raw_strings data lead
          \<and> leads (snd (create_lead_object uuid now self data))
              = AList.update lid lead (leads self)"
proof -
  obtain r where r: "status r = Status_str (get_default (data_status data) ''new'')"
    "lead_source r = Source_str (get_default (data_lead_source data) ''other'')"
    "create_lead_object uuid now self data = add_lead uuid now self r"
    using create_lead_object_calls_add_lead [OF assms] by blast
  have "fst (add_lead uuid now self r) = Inr lid"
    using assms r(3) by simp
  then obtain r' where r': "status r' = status r" "lead_source r' = lead_source r"
    "leads (snd (add_lead uuid now self r))
     = AList.update lid (qualify_object (scoring_criteria self) r') (leads self)"
    using add_lead_created by blast
  have "stores_raw_strings data r'"
    using r(1,2) r'(1,2) by (simp add: stores_raw_strings_def)
  then have "stores_raw_strings data (qualify_object (scoring_criteria self) r')"
    by (rule stores_raw_strings_qualify_object)
  then show ?thesis using r'(3) r(3) by auto
qed

lemma create_step_state:
  "snd (create_lead_objects_from_data self ((uuid, now, data) # inputs))
   = snd (create_lead_objects_from_data (snd (create_lead_object uuid now self data)) inputs)"
  by (cases "create_lead_object uuid now self data")
     (auto split: sum.splits prod.splits)

lemma create_step_ids:
  "fst (create_lead_objects_from_data self ((uuid, now, data) # inputs))
   = (case fst (create_lead_object uuid now self data) of Inl e \<Rightarrow> [] | Inr lid \<Rightarrow> [lid])
     @ fst (create_lead_objects_from_data (snd (create_lead_object uuid now self data)) inputs)"
  by (cases "create_lead_object uuid now self data")
     (auto split: sum.splits prod.splits)

lemma create_lead_object_keeps_raw:
  assumes "map_of (leads self) k = Some l" "stores_raw_strings d l"
  shows "\<exists>l' d'. d' \<in> {d, data}
          \<and> map_of (leads (snd (create_lead_object uuid now self data))) k = Some l'
          \<and> stores_raw_strings d' l'"
proof (cases "fst (create_lead_object uuid now self data)")
  case (Inl e)
  then show ?thesis using assms create_lead_object_failed by fastforce
next
  case (Inr lid)
  then obtain lead where lead: "stores_raw_strings data lead"
    "leads (snd (create_lead_object uuid now self data)) = AList.update lid lead (leads self)"
    using create_lead_object_created by blast
  show ?thesis
  proof (cases "k = lid")
    case True
    then show ?thesis using lead by (auto simp add: map_of_update_same)
  next
    case False
    then show ?thesis using lead assms by (auto simp add: map_of_update_other)
  qed
qed

lemma create_lead_objects_keep_raw:
  "map_of (leads self) k = Some l \<Longrightarrow> stores_raw_strings d l \<Longrightarrow>
   \<exists>l' d'. d' \<in> insert d (snd ` snd ` set inputs)
     \<and> map_of (leads (snd (create_lead_objects_from_data self inputs))) k = Some l'
     \<and> stores_raw_strings d' l'"
proof (induction inputs arbitrary: self l d)
  case Nil
  then show ?case by auto
next
  case (Cons x inputs)
  obtain uuid now data where x: "x = (uuid, now, data)" by (cases x)
  let ?self' = "snd (create_lead_object uuid now self data)"
  obtain l' d' where step: "d' \<in> {d, data}" "map_of (leads ?self') k = Some l'"
    "stores_raw_strings d' l'"
    using create_lead_object_keeps_raw [OF Cons.prems] by blast
  obtain l'' d'' where rest: "d'' \<in> insert d' (snd ` snd ` set inputs)"
    "map_of (leads (snd (create_lead_objects_from_data ?self' inputs))) k = Some l''"
    "stores_raw_strings d'' l''"
    using Cons.IH [OF step(2,3)] by blast
  have "d'' \<in> insert d (snd ` snd ` set (x # inputs))"
    using rest(1) step(1) x by auto
  moreover have "snd (create_lead_objects_from_data self (x # inputs))
                 = snd (create_lead_objects_from_data ?self' inputs)"
    unfolding x by (rule create_step_state)
  ultimately show ?case using rest(2,3) by auto
qed

lemma created_ids_are_raw:
  "lid \<in> set (fst (create_lead_objects_from_data self inputs)) \<Longrightarrow>
   \<exists>l d. d \<in> snd ` snd ` set inputs
     \<and> map_of (leads (snd (create_lead_objects_from_data self inputs))) lid = Some l
     \<and> stores_raw_strings d l"
proof (induction inputs arbitrary: self)
  case Nil
  then show ?case by simp
next
  case (Cons x inputs)
  obtain uuid now data where x: "x = (uuid, now, data)" by (cases x)
  let ?self' = "snd (create_lead_object uuid now self data)"
  have state: "snd (create_lead_objects_from_data self (x # inputs))
               = snd (create_lead_objects_from_data ?self' inputs)"
    unfolding x by (rule create_step_state)
  show ?case
  proof (cases "fst (create_lead_object uuid now self data)")
    case (Inl e)
    then have "fst (create_lead_objects_from_data self (x # inputs))
               = fst (create_lead_objects_from_data ?self' inputs)"
      unfolding x create_step_ids by simp
    with Cons.prems have "lid \<in> set (fst (create_lead_objects_from_data ?self' inputs))"
      by simp
    from Cons.IH [OF this] show ?thesis unfolding state by auto
  next
    case (Inr lid0)
    then have ids: "fst (create_lead_objects_from_data self (x # inputs))
               = lid0 # fst (create_lead_objects_from_data ?self' inputs)"
      unfolding x create_step_ids by simp
    show ?thesis
    proof (cases "lid \<in> set (fst (create_lead_objects_from_data ?self' inputs))")
      case True
      from Cons.IH [OF this] show ?thesis unfolding state by auto
    next
      case False
      with Cons.prems ids have "lid = lid0" by simp
      with Inr obtain lead where lead: "stores_raw_strings data lead"
        "leads ?self' = AList.update lid lead (leads self)"
        using create_lead_object_created by blast
      have "map_of (leads ?self') lid = Some lead"
        by (simp add: lead(2) map_of_update_same)
      from create_lead_objects_keep_raw [OF this lead(1), of inputs]
      show ?thesis unfolding state using x by auto
    qed
  qed
qed

text \<open>
  Claim C10. Every id returned by \<open>create_lead_objects_from_data\<close> is stored with a
  lead whose \<open>status\<close> and \<open>lead_source\<close> are the raw strings of one of the input
  dictionaries (or the defaults "new" and "other"), not enum members. Scoring such a
  lead never changes its status, and \<open>get_leads_by_status\<close> returns it for no
  \<open>LeadStatus\<close>.
\<close>

theorem created_leads_keep_raw_strings:
  assumes "create_lead_objects_from_data self inputs = (lead_ids, self')"
    and "lid \<in> set lead_ids"
  shows "\<exists>lead data. data \<in> snd ` snd ` set inputs
         \<and> map_of (leads self') lid = Some lead
         \<and> status lead = Status_str (get_default (data_status data) ''new'')
         \<and> lead_source lead = Source_str (get_default (data_lead_source data) ''other'')
         \<and> (\<forall>c. status (qualify_object c lead) = status lead)
         \<and> (\<exists>lead'. map_of (leads (snd (qualify_lead self' lid))) lid = Some lead'
                \<and> status lead' = status lead)
         \<and> (\<forall>st. lead \<notin> set (get_leads_by_status self' st))"
proof -
  have "lid \<in> set (fst (create_lead_objects_from_data self inputs))"
    using assms by simp
  from created_ids_are_raw [OF this]
  obtain lead data where raw: "data \<in> snd ` snd ` set inputs"
    "map_of (leads (snd (create_lead_objects_from_data self inputs))) lid = Some lead"
    "stores_raw_strings data lead"
    by (elim exE conjE)
  have stored: "map_of (leads self') lid = Some lead"
    using raw(2) assms(1) by simp
  have st: "status lead = Status_str (get_default (data_status data) ''new'')"
    and src: "lead_source lead = Source_str (get_default (data_lead_source data) ''other'')"
    using raw(3) by (simp_all add: stores_raw_strings_def)
  have keep: "status (qualify_object c lead) = status lead" for c
    unfolding st by (rule qualify_object_keeps_str_status) (rule st)
  have run: "leads (snd (qualify_lead self' lid))
             = AList.update lid (qualify_object (scoring_criteria self') lead) (leads self')"
    by (simp add: qualify_lead_found [OF stored])
  have again: "map_of (leads (snd (qualify_lead self' lid))) lid
               = Some (qualify_object (scoring_criteria self') lead)"
    unfolding run by (rule map_of_update_same)
  have hidden: "lead \<notin> set (get_leads_by_status self' s)" for s
    unfolding get_leads_by_status_def using st by simp
  show ?thesis
  proof (intro exI conjI allI)
    show "data \<in> snd ` snd ` set inputs" by (rule raw(1))
    show "map_of (leads self') lid = Some lead" by (rule stored)
    show "status lead = Status_str (get_default (data_status data) ''new'')" by (rule st)
    show "lead_source lead = Source_str (get_default (data_lead_source data) ''other'')"
      by (rule src)
    show "status (qualify_object c lead) = status lead" for c by (rule keep)
    show "map_of (leads (snd (qualify_lead self' lid))) lid
          = Some (qualify_object (scoring_criteria self') lead)" by (rule again)
    show "status (qualify_object (scoring_criteria self') lead) = status lead" by (rule keep)
    show "lead \<notin> set (get_leads_by_status self' s)" for s by (rule hidden)
  qed
qed

definition linkedin_data :: LeadData where
  "linkedin_data =
     \<lparr> data_first_name = Some ''Ada'', data_last_name = Some ''Byron'',
       data_email = Some ''ada@example.com'', data_company = Some ''Engines'',
       data_phone = None, data_title = Some ''CTO'',
       data_lead_source = Some ''linkedin'', data_status = Some ''new'',
       data_company_size = Some 1200, data_annual_revenue = None,
       data_budget = Some 120000, data_decision_maker = Some True,
       data_pain_points = Some [''manual processes'', ''cost optimization''],
       data_timeline = Some ''immediate'', data_notes = None, data_tags = None \<rparr>"

definition no_email_data :: LeadData where
  "no_email_data = linkedin_data\<lparr>data_email := None\<rparr>"

lemma create_linkedin_lead:
  "fst (create_lead_object ''u1'' ''t1'' empty_manager linkedin_data) = Inr ''u1''"
  by (simp add: create_lead_object_def LeadSource_of_def LeadStatus_of_def add_lead_cases
      find_lead_by_email_def empty_manager_def linkedin_data_def)

theorem created_leads_keep_raw_strings_witness:
  "''u1'' \<in> set (fst (create_lead_objects_from_data empty_manager
                        [(''u1'', ''t1'', linkedin_data), (''u2'', ''t2'', no_email_data)]))
   \<and> (\<exists>lead data.
         data \<in> snd ` snd ` set [(''u1'', ''t1'', linkedin_data), (''u2'', ''t2'', no_email_data)]
       \<and> map_of (leads (snd (create_lead_objects_from_data empty_manager
                  [(''u1'', ''t1'', linkedin_data), (''u2'', ''t2'', no_email_data)]))) ''u1''
           = Some lead
       \<and> status lead = Status_str (get_default (data_status data) ''new'')
       \<and> lead_source lead = Source_str (get_default (data_lead_source data) ''other'')
       \<and> (\<forall>st. lead \<notin> set (get_leads_by_status
                  (snd (create_lead_objects_from_data empty_manager
                     [(''u1'', ''t1'', linkedin_data), (''u2'', ''t2'', no_email_data)])) st)))"
proof -
  let ?inputs = "[(''u1'', ''t1'', linkedin_data), (''u2'', ''t2'', no_email_data)]"
  have run: "create_lead_objects_from_data empty_manager ?inputs
             = (fst (create_lead_objects_from_data empty_manager ?inputs),
                snd (create_lead_objects_from_data empty_manager ?inputs))"
    by (rule prod.collapse [symmetric])
  have mem: "''u1'' \<in> set (fst (create_lead_objects_from_data empty_manager ?inputs))"
    unfolding create_step_ids by (simp add: create_linkedin_lead)
  from created_leads_keep_raw_strings [OF run mem]
  obtain lead data where found:
    "data \<in> snd ` snd ` set ?inputs"
    "map_of (leads (snd (create_lead_objects_from_data empty_manager ?inputs))) ''u1''
     = Some lead"
    "status lead = Status_str (get_default (data_status data) ''new'')"
    "lead_source lead = Source_str (get_default (data_lead_source data) ''other'')"
    "\<forall>st. lead \<notin> set (get_leads_by_status
              (snd (create_lead_objects_from_data empty_manager ?inputs)) st)"
    by (elim exE conjE)
  show ?thesis
    by (intro conjI exI) (rule mem found)+
qed

end
